theory Spec2Isabelle
  imports Main
begin

section \<open>The failure gallery of the MNIST notebooks\<close>

text \<open>
  The three notebooks (\<open>sklearn-mnist-lc\<close>, \<open>sklearn-mnist-nn\<close>, \<open>sklearn-mnist-ul\<close>)
  define the same helper, up to the name of its first parameter and the way the title
  string is formatted:
  \<^verbatim>\<open>
  def show_failures(pred, trueclass=None, predictedclass=None, maxtoshow=10):
      errors = pred!=y_test
      print('Showing max', maxtoshow, 'first failures. ' ...)
      ii = 0
      plt.figure(figsize=(maxtoshow, 1))
      for i in range(X_test.shape[0]):
          if ii>=maxtoshow:
              break
          if errors[i]:
              if trueclass is not None and y_test[i] != trueclass:
                  continue
              if predictedclass is not None and pred[i] != predictedclass:
                  continue
              plt.subplot(1, maxtoshow, ii+1)
              plt.axis('off')
              plt.imshow(X_test[i,:].reshape(28, 28), cmap="gray")
              plt.title("{} ({})".format(pred[i], y_test[i]))
              ii = ii + 1
  \<close>
  \<open>y_test\<close> and \<open>X_test\<close> are globals of the notebook (the labels and the feature rows of
  the evaluation set); the model takes them as its first two arguments. The function
  returns nothing: what it produces is the row of tiles it draws. A tile is recorded as
  \<open>(i, pred[i], y_test[i])\<close>: the row \<open>i\<close> whose image is shown, and the two labels of its
  title, the predicted one first. The tile drawn when the counter is \<open>ii\<close> goes to
  subplot \<open>ii + 1\<close>, so the list of tiles in drawing order is the gallery from left to
  right. Labels are values of any type with equality (the notebooks use the strings
  \<open>'0'\<close> .. \<open>'9'\<close>); \<open>None\<close> for a filter is \<open>None\<close> of \<open>option\<close>.
\<close>

subsection \<open>Exceptions and library calls\<close>

text \<open>
  The helper has no \<open>raise\<close> of its own. The exceptions it can end with come from the
  operations and calls it makes:
  \<^item> \<open>TypeError\<close>: \<open>errors[i]\<close> when \<open>errors\<close> is a plain boolean, which cannot be indexed;
  \<^item> \<open>FigsizeError\<close>: the \<open>ValueError\<close> of Matplotlib when \<open>plt.figure\<close> is given a
    negative width;
  \<^item> \<open>IndexError\<close>: an index past the end of a one-dimensional array.
  An exception ends the call; the result \<open>Inl e\<close> says which one, and says nothing about
  the tiles drawn before it.
\<close>

datatype error = TypeError | FigsizeError | IndexError

type_synonym 'a tile = "nat \<times> 'a \<times> 'a"

text \<open>
  \<open>a != b\<close> on one-dimensional arrays, as NumPy computes it on the interpreters the
  notebooks record as their kernels (Python 3.5 and 3.6). The result is an array of
  booleans, element by element, when the lengths agree, and also when one array has
  length one, which is then broadcast against the other. For any other pair of lengths
  the comparison does not raise: it warns and answers with the single boolean \<open>True\<close>.
  (NumPy 1.25 and later, which need a newer interpreter, raise a \<open>ValueError\<close> instead.)
\<close>

datatype comparison = Elementwise "bool list" | Scalar bool

definition ne_arrays :: "'a list \<Rightarrow> 'a list \<Rightarrow> comparison" where
  "ne_arrays a b =
     (if length a = length b then Elementwise (map (\<lambda>(x, y). x \<noteq> y) (zip a b))
      else if length a = 1 then Elementwise (map (\<lambda>y. a ! 0 \<noteq> y) b)
      else if length b = 1 then Elementwise (map (\<lambda>x. x \<noteq> b ! 0) a)
      else Scalar True)"

text \<open>\<open>arr[i]\<close> for an index \<open>i \<ge> 0\<close>, as produced by \<open>range\<close>.\<close>

definition getitem :: "'a list \<Rightarrow> nat \<Rightarrow> error + 'a" where
  "getitem arr i = (if i < length arr then Inr (arr ! i) else Inl IndexError)"

text \<open>\<open>plt.figure(figsize=(maxtoshow, 1))\<close>: a width of zero is accepted, a negative one is not.\<close>

definition plt_figure :: "int \<Rightarrow> error + unit" where
  "plt_figure maxtoshow = (if maxtoshow < 0 then Inl FigsizeError else Inr ())"

text \<open>\<open>errors[i]\<close>, where \<open>errors\<close> is what the comparison answered.\<close>

definition errors_item :: "comparison \<Rightarrow> nat \<Rightarrow> error + bool" where
  "errors_item errors i =
     (case errors of Elementwise flags \<Rightarrow> getitem flags i | Scalar b \<Rightarrow> Inl TypeError)"

subsection \<open>The scan\<close>

text \<open>
  \<open>c is not None and arr[i] != c\<close>, the test of both \<open>continue\<close> statements. The array is
  read only when the filter is set.
\<close>

definition filtered_out :: "'a option \<Rightarrow> 'a list \<Rightarrow> nat \<Rightarrow> error + bool" where
  "filtered_out c arr i =
     (case c of
        None \<Rightarrow> Inr False
      | Some v \<Rightarrow> (case getitem arr i of Inl e \<Rightarrow> Inl e | Inr x \<Rightarrow> Inr (x \<noteq> v)))"

text \<open>
  The \<open>for\<close> loop, over the indices still to visit. The state is the counter \<open>ii\<close> and the
  tiles drawn so far. The first equation is the end of \<open>range\<close>; in the second the
  branches are, in order: \<open>break\<close>, \<open>errors[i]\<close> false, the two \<open>continue\<close> statements,
  and the drawing of the tile, whose title reads \<open>pred[i]\<close> and then \<open>y_test[i]\<close>.
\<close>

fun scan ::
  "comparison \<Rightarrow> 'a list \<Rightarrow> 'a list \<Rightarrow> 'a option \<Rightarrow> 'a option \<Rightarrow> int \<Rightarrow>
   nat list \<Rightarrow> int \<Rightarrow> 'a tile list \<Rightarrow> error + 'a tile list" where
  "scan errors y_test pred trueclass predictedclass maxtoshow [] ii fig = Inr fig"
| "scan errors y_test pred trueclass predictedclass maxtoshow (i # rest) ii fig =
     (if ii \<ge> maxtoshow then Inr fig
      else case errors_item errors i of
        Inl e \<Rightarrow> Inl e
      | Inr False \<Rightarrow> scan errors y_test pred trueclass predictedclass maxtoshow rest ii fig
      | Inr True \<Rightarrow>
          (case filtered_out trueclass y_test i of
             Inl e \<Rightarrow> Inl e
           | Inr True \<Rightarrow> scan errors y_test pred trueclass predictedclass maxtoshow rest ii fig
           | Inr False \<Rightarrow>
               (case filtered_out predictedclass pred i of
                  Inl e \<Rightarrow> Inl e
                | Inr True \<Rightarrow>
                    scan errors y_test pred trueclass predictedclass maxtoshow rest ii fig
                | Inr False \<Rightarrow>
                    (case getitem pred i of
                       Inl e \<Rightarrow> Inl e
                     | Inr p \<Rightarrow>
                         (case getitem y_test i of
                            Inl e \<Rightarrow> Inl e
                          | Inr g \<Rightarrow>
                              scan errors y_test pred trueclass predictedclass maxtoshow rest
                                (ii + 1) (fig @ [(i, p, g)]))))))"

text \<open>
  The whole call: the comparison, the new figure, then the loop over
  \<open>range(X_test.shape[0])\<close> from \<open>ii = 0\<close> and an empty figure. Of \<open>X_test\<close> the gallery
  needs the number of rows only; the image of each tile is in the record of calls below.
\<close>

definition show_failures ::
  "'x list \<Rightarrow> 'a list \<Rightarrow> 'a list \<Rightarrow> 'a option \<Rightarrow> 'a option \<Rightarrow> int \<Rightarrow> error + 'a tile list" where
  "show_failures X_test y_test pred trueclass predictedclass maxtoshow =
     (let errors = ne_arrays pred y_test in
      case plt_figure maxtoshow of
        Inl e \<Rightarrow> Inl e
      | Inr _ \<Rightarrow>
          scan errors y_test pred trueclass predictedclass maxtoshow
            [0..<length X_test] 0 [])"

subsection \<open>The calls of a run\<close>

text \<open>
  The helper acts on the notebook by what it prints and by the plotting calls it makes.
  The second model keeps them: a run takes the record of the output and plotting
  calls made so far and returns it extended, with the exception that ended the run, if
  any. A warning issued by the comparison is not part of the record. An event stands for
  a call that has returned:
  \<^item> \<open>Print m\<close>: the banner \<open>Showing max m first failures. ...\<close>;
  \<^item> \<open>Figure m\<close>: \<open>plt.figure(figsize=(m, 1))\<close>;
  \<^item> \<open>Subplot m k\<close>: \<open>plt.subplot(1, m, k)\<close>; \<open>AxisOff\<close>: \<open>plt.axis('off')\<close>;
  \<^item> \<open>Imshow row\<close>: \<open>plt.imshow(row.reshape(28, 28), cmap="gray")\<close>, for the 784-pixel rows
    of the notebooks;
  \<^item> \<open>Title p g\<close>: \<open>plt.title\<close> with the predicted label \<open>p\<close> and the correct label \<open>g\<close>.
  The loop is the one above, statement by statement; in the drawing branch the
  arguments are evaluated where the code evaluates them, \<open>X_test[i,:]\<close> after the two
  calls before it and the two labels of the title after \<open>plt.imshow\<close>.
\<close>

datatype ('x, 'a) event =
  Print int | Figure int | Subplot int int | AxisOff | Imshow 'x | Title 'a 'a

fun scan_calls ::
  "comparison \<Rightarrow> 'x list \<Rightarrow> 'a list \<Rightarrow> 'a list \<Rightarrow> 'a option \<Rightarrow> 'a option \<Rightarrow> int \<Rightarrow>
   nat list \<Rightarrow> int \<Rightarrow> ('x, 'a) event list \<Rightarrow> ('x, 'a) event list \<times> error option" where
  "scan_calls errors X_test y_test pred trueclass predictedclass maxtoshow [] ii calls =
     (calls, None)"
| "scan_calls errors X_test y_test pred trueclass predictedclass maxtoshow (i # rest) ii calls =
     (if ii \<ge> maxtoshow then (calls, None)
      else case errors_item errors i of
        Inl e \<Rightarrow> (calls, Some e)
      | Inr False \<Rightarrow>
          scan_calls errors X_test y_test pred trueclass predictedclass maxtoshow rest ii calls
      | Inr True \<Rightarrow>
          (case filtered_out trueclass y_test i of
             Inl e \<Rightarrow> (calls, Some e)
           | Inr True \<Rightarrow>
               scan_calls errors X_test y_test pred trueclass predictedclass maxtoshow rest ii
                 calls
           | Inr False \<Rightarrow>
               (case filtered_out predictedclass pred i of
                  Inl e \<Rightarrow> (calls, Some e)
                | Inr True \<Rightarrow>
                    scan_calls errors X_test y_test pred trueclass predictedclass maxtoshow rest
                      ii calls
                | Inr False \<Rightarrow>
                    (case getitem X_test i of
                       Inl e \<Rightarrow> (calls @ [Subplot maxtoshow (ii + 1), AxisOff], Some e)
                     | Inr row \<Rightarrow>
                         (case getitem pred i of
                            Inl e \<Rightarrow>
                              (calls @ [Subplot maxtoshow (ii + 1), AxisOff, Imshow row], Some e)
                          | Inr p \<Rightarrow>
                              (case getitem y_test i of
                                 Inl e \<Rightarrow>
                                   (calls @ [Subplot maxtoshow (ii + 1), AxisOff, Imshow row],
                                    Some e)
                               | Inr g \<Rightarrow>
                                   scan_calls errors X_test y_test pred trueclass predictedclass
                                     maxtoshow rest (ii + 1)
                                     (calls @ [Subplot maxtoshow (ii + 1), AxisOff, Imshow row,
                                               Title p g])))))))"

definition show_failures_calls ::
  "('x, 'a) event list \<Rightarrow> 'x list \<Rightarrow> 'a list \<Rightarrow> 'a list \<Rightarrow> 'a option \<Rightarrow> 'a option \<Rightarrow> int \<Rightarrow>
   ('x, 'a) event list \<times> error option" where
  "show_failures_calls calls X_test y_test pred trueclass predictedclass maxtoshow =
     (let errors = ne_arrays pred y_test in
      case plt_figure maxtoshow of
        Inl e \<Rightarrow> (calls @ [Print maxtoshow], Some e)
      | Inr _ \<Rightarrow>
          scan_calls errors X_test y_test pred trueclass predictedclass maxtoshow
            [0..<length X_test] 0 (calls @ [Print maxtoshow, Figure maxtoshow]))"

text \<open>The labels of the titles among a list of calls, in order.\<close>

fun titles :: "('x, 'a) event list \<Rightarrow> ('a \<times> 'a) list" where
  "titles [] = []"
| "titles (Title p g # evs) = (p, g) # titles evs"
| "titles (ev # evs) = titles evs"


section \<open>The specified operation\<close>

text \<open>
  The specification describes \<open>findFailures(groundTruth, predictions, expectedLabel,
  predictedLabel, maxResults)\<close> by its result: the positions where the prediction differs
  from the ground truth and both optional filters are satisfied, in index order, cut to
  the first \<open>maxResults\<close>. The definitions of this section follow those words, not the
  code; the scan above is compared with them.
\<close>

definition satisfies_query :: "'a option \<Rightarrow> 'a option \<Rightarrow> 'a tile \<Rightarrow> bool" where
  "satisfies_query expectedLabel predictedLabel t =
     (case t of (i, p, g) \<Rightarrow>
        p \<noteq> g \<and>
        (case expectedLabel of None \<Rightarrow> True | Some e \<Rightarrow> g = e) \<and>
        (case predictedLabel of None \<Rightarrow> True | Some q \<Rightarrow> p = q))"

definition all_matching :: "'a list \<Rightarrow> 'a list \<Rightarrow> 'a option \<Rightarrow> 'a option \<Rightarrow> 'a tile list" where
  "all_matching groundTruth predictions expectedLabel predictedLabel =
     filter (satisfies_query expectedLabel predictedLabel)
       (zip [0..<length groundTruth] (zip predictions groundTruth))"

definition findFailures_spec ::
  "'a list \<Rightarrow> 'a list \<Rightarrow> 'a option \<Rightarrow> 'a option \<Rightarrow> int \<Rightarrow> 'a tile list" where
  "findFailures_spec groundTruth predictions expectedLabel predictedLabel maxResults =
     take (nat maxResults) (all_matching groundTruth predictions expectedLabel predictedLabel)"

section \<open>What the scan computes\<close>

text \<open>
  \<open>drawn_at\<close> collects the three tests an index passes on its way to the drawing
  statements: \<open>errors[i]\<close> is true and neither \<open>continue\<close> is taken.
\<close>

definition drawn_at ::
  "comparison \<Rightarrow> 'a list \<Rightarrow> 'a list \<Rightarrow> 'a option \<Rightarrow> 'a option \<Rightarrow> nat \<Rightarrow> bool" where
  "drawn_at errors y_test pred trueclass predictedclass i =
     (errors_item errors i = Inr True \<and> filtered_out trueclass y_test i = Inr False \<and>
      filtered_out predictedclass pred i = Inr False)"

lemma take_step:
  fixes ii m :: int
  assumes "ii < m"
  shows "take (nat (m - ii)) (t # ts) = t # take (nat (m - (ii + 1))) ts"
proof -
  from assms have "nat (m - ii) = Suc (nat (m - (ii + 1)))" by simp
  then show ?thesis by simp
qed

lemma getitem_nth: "getitem arr i = Inr x \<Longrightarrow> x = arr ! i"
  by (simp add: getitem_def split: if_splits)

lemma scan_break:
  "m \<le> ii \<Longrightarrow> scan errors y_test pred tc pc m rest ii fig = Inr fig"
  by (cases rest) simp_all

lemma scan_skip:
  "ii < m \<Longrightarrow> \<not> drawn_at errors y_test pred tc pc i \<Longrightarrow>
   scan errors y_test pred tc pc m (i # rest) ii fig = Inr r \<Longrightarrow>
   scan errors y_test pred tc pc m rest ii fig = Inr r"
  by (auto simp: drawn_at_def split: sum.splits bool.splits)

lemma scan_draw:
  "ii < m \<Longrightarrow> drawn_at errors y_test pred tc pc i \<Longrightarrow>
   scan errors y_test pred tc pc m (i # rest) ii fig = Inr r \<Longrightarrow>
   scan errors y_test pred tc pc m rest (ii + 1) (fig @ [(i, pred ! i, y_test ! i)]) = Inr r"
  by (auto simp: drawn_at_def dest: getitem_nth split: sum.splits bool.splits)

text \<open>
  Whenever the loop ends without an exception, the figure holds the tiles it started
  with, followed by the tiles of the first \<open>maxtoshow - ii\<close> indices that pass the tests.
  This holds for arrays of any lengths.
\<close>

lemma scan_result:
  "scan errors y_test pred tc pc m rest ii fig = Inr r \<Longrightarrow>
   r = fig @ take (nat (m - ii))
         (map (\<lambda>i. (i, pred ! i, y_test ! i))
            (filter (drawn_at errors y_test pred tc pc) rest))"
proof (induction rest arbitrary: ii fig)
  case Nil
  then show ?case by simp
next
  case (Cons i rest)
  show ?case
  proof (cases "m \<le> ii")
    case True
    with Cons.prems show ?thesis by (simp add: scan_break)
  next
    case False
    then have lt: "ii < m" by simp
    show ?thesis
    proof (cases "drawn_at errors y_test pred tc pc i")
      case True
      from scan_draw [OF lt True Cons.prems] Cons.IH
      have "r = (fig @ [(i, pred ! i, y_test ! i)]) @ take (nat (m - (ii + 1)))
         (map (\<lambda>i. (i, pred ! i, y_test ! i))
            (filter (drawn_at errors y_test pred tc pc) rest))"
        by blast
      with True lt show ?thesis by (simp add: take_step)
    next
      case False
      from scan_skip [OF lt False Cons.prems] Cons.IH
      have "r = fig @ take (nat (m - ii))
         (map (\<lambda>i. (i, pred ! i, y_test ! i))
            (filter (drawn_at errors y_test pred tc pc) rest))"
        by blast
      with False show ?thesis by simp
    qed
  qed
qed

text \<open>No index is out of range when every index to visit is inside the three arrays.\<close>

lemma scan_returns:
  "\<forall>i\<in>set rest. i < length flags \<and> i < length y_test \<and> i < length pred \<Longrightarrow>
   \<exists>r. scan (Elementwise flags) y_test pred tc pc m rest ii fig = Inr r"
proof (induction rest arbitrary: ii fig)
  case Nil
  then show ?case by simp
next
  case (Cons i rest)
  then show ?case
    by (auto simp: errors_item_def getitem_def filtered_out_def
        split: sum.splits bool.splits option.splits)
qed

lemma show_failures_result:
  assumes "show_failures X_test y_test pred tc pc m = Inr r"
  shows "0 \<le> m \<and>
         r = take (nat m) (map (\<lambda>i. (i, pred ! i, y_test ! i))
               (filter (drawn_at (ne_arrays pred y_test) y_test pred tc pc)
                  [0..<length X_test]))"
proof -
  from assms have m: "0 \<le> m"
    by (auto simp: show_failures_def plt_figure_def split: if_splits)
  from assms m
  have "scan (ne_arrays pred y_test) y_test pred tc pc m [0..<length X_test] 0 [] = Inr r"
    by (simp add: show_failures_def plt_figure_def)
  from scan_result [OF this] m show ?thesis by simp
qed

subsection \<open>Aligned inputs\<close>

lemma ne_arrays_aligned:
  "length pred = length y_test \<Longrightarrow>
   ne_arrays pred y_test = Elementwise (map (\<lambda>(x, y). x \<noteq> y) (zip pred y_test))"
  by (simp add: ne_arrays_def)

lemma drawn_at_aligned:
  assumes "length pred = length y_test" and "i < length y_test"
  shows "drawn_at (Elementwise (map (\<lambda>(x, y). x \<noteq> y) (zip pred y_test))) y_test pred tc pc i
         = satisfies_query tc pc (i, pred ! i, y_test ! i)"
  using assms
  by (auto simp: drawn_at_def satisfies_query_def filtered_out_def errors_item_def getitem_def
      split: option.splits)

lemma positions_eq:
  "length P = length G \<Longrightarrow>
   zip [0..<length G] (zip P G) = map (\<lambda>i. (i, P ! i, G ! i)) [0..<length G]"
  by (rule nth_equalityI) simp_all

lemma aligned_selection:
  assumes "length pred = length y_test"
  shows "map (\<lambda>i. (i, pred ! i, y_test ! i))
           (filter
              (drawn_at (Elementwise (map (\<lambda>(x, y). x \<noteq> y) (zip pred y_test))) y_test pred
                 tc pc)
              [0..<length y_test])
         = all_matching y_test pred tc pc"
proof -
  have "filter
          (drawn_at (Elementwise (map (\<lambda>(x, y). x \<noteq> y) (zip pred y_test))) y_test pred tc pc)
          [0..<length y_test]
        = filter (satisfies_query tc pc \<circ> (\<lambda>i. (i, pred ! i, y_test ! i))) [0..<length y_test]"
    by (rule filter_cong) (simp_all add: drawn_at_aligned [OF assms])
  then show ?thesis
    by (simp add: all_matching_def positions_eq [OF assms] filter_map)
qed

text \<open>
  With as many predictions and feature rows as labels, and a cap that is not negative,
  the call ends normally and its gallery is the specified result.
\<close>

lemma show_failures_aligned:
  assumes "length pred = length y_test" and "length X_test = length y_test" and "0 \<le> m"
  shows "show_failures X_test y_test pred tc pc m = Inr (findFailures_spec y_test pred tc pc m)"
proof -
  let ?mask = "map (\<lambda>(x, y). x \<noteq> y) (zip pred y_test)"
  have "\<forall>i\<in>set [0..<length X_test].
          i < length ?mask \<and> i < length y_test \<and> i < length pred"
    using assms by simp
  from scan_returns [OF this]
  obtain r where
    r: "scan (Elementwise ?mask) y_test pred tc pc m [0..<length X_test] 0 [] = Inr r"
    by blast
  from scan_result [OF r] assms
  have "r = findFailures_spec y_test pred tc pc m"
    by (simp add: findFailures_spec_def aligned_selection)
  with r assms show ?thesis
    by (simp add: show_failures_def ne_arrays_aligned plt_figure_def)
qed


lemma show_failures_member:
  assumes "show_failures X_test y_test pred tc pc m = Inr r" and "t \<in> set r"
  obtains i where "i < length X_test" and "t = (i, pred ! i, y_test ! i)"
    and "drawn_at (ne_arrays pred y_test) y_test pred tc pc i"
proof -
  from show_failures_result [OF assms(1)] assms(2)
  have "t \<in> set (map (\<lambda>i. (i, pred ! i, y_test ! i))
               (filter (drawn_at (ne_arrays pred y_test) y_test pred tc pc)
                  [0..<length X_test]))"
    by (auto dest: in_set_takeD)
  then obtain i where "i < length X_test" and "t = (i, pred ! i, y_test ! i)"
    and "drawn_at (ne_arrays pred y_test) y_test pred tc pc i"
    by auto
  with that show thesis by blast
qed

lemma filtered_out_SomeD: "filtered_out (Some v) arr i = Inr False \<Longrightarrow> arr ! i = v"
  by (auto simp: filtered_out_def getitem_def split: if_splits)

lemma all_matching_member:
  assumes "length P = length G" and "(i, p, g) \<in> set (all_matching G P e q)"
  shows "i < length G \<and> p = P ! i \<and> g = G ! i \<and> satisfies_query e q (i, p, g)"
  using assms by (auto simp: all_matching_def positions_eq)

lemma length_all_matching_unfiltered:
  assumes "length P = length G"
  shows "length (all_matching G P None None) = length (filter (\<lambda>(p, g). p \<noteq> g) (zip P G))"
proof -
  let ?zs = "zip [0..<length G] (zip P G)"
  have sat: "satisfies_query None None = (\<lambda>(p, g). p \<noteq> g) \<circ> snd"
    by (auto simp: satisfies_query_def fun_eq_iff)
  have "map snd ?zs = zip P G"
    using assms by simp
  then have "filter (\<lambda>(p, g). p \<noteq> g) (zip P G)
             = map snd (filter ((\<lambda>(p, g). p \<noteq> g) \<circ> snd) ?zs)"
    by (metis filter_map)
  then show ?thesis
    by (simp add: all_matching_def sat)
qed

section \<open>What a run prints and plots\<close>

text \<open>
  The loop only appends to the record of calls: what was there before stays in front,
  and what is appended, like the exception, does not depend on it.
\<close>

lemma scan_calls_frame:
  "scan_calls errors X_test y_test pred tc pc m rest ii (before @ calls)
   = (case scan_calls errors X_test y_test pred tc pc m rest ii calls of
        (calls', e) \<Rightarrow> (before @ calls', e))"
proof (induction rest arbitrary: ii calls)
  case Nil
  show ?case by simp
next
  case (Cons i rest)
  have step: "scan_calls errors X_test y_test pred tc pc m rest k (before @ calls @ new)
      = (case scan_calls errors X_test y_test pred tc pc m rest k (calls @ new) of
           (calls', e) \<Rightarrow> (before @ calls', e))" for k new
    using Cons.IH [of k "calls @ new"] by simp
  show ?case
    using Cons.IH [of ii calls]
    by (simp add: step split: sum.splits bool.splits)
qed

lemma show_failures_calls_frame:
  "show_failures_calls calls X_test y_test pred tc pc m
   = (case show_failures_calls [] X_test y_test pred tc pc m of
        (calls', e) \<Rightarrow> (calls @ calls', e))"
proof (cases "m < 0")
  case True
  then show ?thesis by (simp add: show_failures_calls_def plt_figure_def)
next
  case False
  let ?run = "\<lambda>cs. scan_calls (ne_arrays pred y_test) X_test y_test pred tc pc m
                      [0..<length X_test] 0 cs"
  have "?run (calls @ [Print m, Figure m])
        = (case ?run [Print m, Figure m] of (calls', e) \<Rightarrow> (calls @ calls', e))"
    by (rule scan_calls_frame)
  with False show ?thesis
    by (simp add: show_failures_calls_def plt_figure_def)
qed

text \<open>
  The two models are two views of the same run. Over rows that exist, the record of
  calls ends with the exception of the gallery model, and the titles it holds after a
  normal end are the labels of the tiles of the gallery.
\<close>

lemma titles_append: "titles (xs @ ys) = titles xs @ titles ys"
  by (induction xs rule: titles.induct) simp_all

lemma scan_calls_outcome:
  "\<forall>i\<in>set rest. i < length X_test \<Longrightarrow>
   snd (scan_calls errors X_test y_test pred tc pc m rest ii calls)
   = (case scan errors y_test pred tc pc m rest ii fig of Inl e \<Rightarrow> Some e | Inr r \<Rightarrow> None)"
proof (induction rest arbitrary: ii calls fig)
  case Nil
  show ?case by simp
next
  case (Cons i rest)
  then have i: "i < length X_test" and rest: "\<forall>i\<in>set rest. i < length X_test"
    by simp_all
  have IH: "snd (scan_calls errors X_test y_test pred tc pc m rest k cs)
      = (case scan errors y_test pred tc pc m rest k f of Inl e \<Rightarrow> Some e | Inr r \<Rightarrow> None)"
    for k cs f
    using Cons.IH [OF rest] .
  show ?case
  proof (cases "m \<le> ii")
    case True
    then show ?thesis by simp
  next
    case False
    show ?thesis
    proof (cases "errors_item errors i")
      case (Inl e)
      with False show ?thesis by simp
    next
      case (Inr err)
      show ?thesis
      proof (cases "filtered_out tc y_test i")
        case (Inl e)
        with False Inr show ?thesis by (cases err) (simp_all add: IH)
      next
        case skip1: (Inr s1)
        show ?thesis
        proof (cases "filtered_out pc pred i")
          case (Inl e)
          with False Inr skip1 show ?thesis by (cases err; cases s1) (simp_all add: IH)
        next
          case skip2: (Inr s2)
          show ?thesis
          proof (cases "getitem pred i")
            case (Inl e)
            with False Inr skip1 skip2 i show ?thesis
              by (cases err; cases s1; cases s2) (simp_all add: IH getitem_def [of X_test])
          next
            case p: (Inr p)
            with False Inr skip1 skip2 i show ?thesis
              by (cases err; cases s1; cases s2; cases "getitem y_test i")
                (simp_all add: IH getitem_def [of X_test])
          qed
        qed
      qed
    qed
  qed
qed

lemma scan_calls_titles:
  "\<forall>i\<in>set rest. i < length X_test \<Longrightarrow> titles calls = map snd fig \<Longrightarrow>
   scan errors y_test pred tc pc m rest ii fig = Inr r \<Longrightarrow>
   titles (fst (scan_calls errors X_test y_test pred tc pc m rest ii calls)) = map snd r"
proof (induction rest arbitrary: ii calls fig)
  case Nil
  then show ?case by simp
next
  case (Cons i rest)
  from Cons.prems(1) have i: "i < length X_test" and rest: "\<forall>i\<in>set rest. i < length X_test"
    by simp_all
  have same: "titles (fst (scan_calls errors X_test y_test pred tc pc m rest ii calls))
              = map snd r"
    if "scan errors y_test pred tc pc m rest ii fig = Inr r"
    using Cons.IH [OF rest Cons.prems(2) that] .
  have more: "titles (fst (scan_calls errors X_test y_test pred tc pc m rest (ii + 1)
                (calls @ [Subplot m (ii + 1), AxisOff, Imshow (X_test ! i), Title p g])))
              = map snd r"
    if "scan errors y_test pred tc pc m rest (ii + 1) (fig @ [(i, p, g)]) = Inr r" for p g
  proof -
    have "titles (calls @ [Subplot m (ii + 1), AxisOff, Imshow (X_test ! i), Title p g])
          = map snd (fig @ [(i, p, g)])"
      using Cons.prems(2) by (simp add: titles_append)
    from Cons.IH [OF rest this that] show ?thesis .
  qed
  from Cons.prems(2,3) i show ?case
    by (auto simp: getitem_def [of X_test] same more split: if_splits sum.splits bool.splits)
qed

lemma show_failures_calls_agree:
  "snd (show_failures_calls calls X_test y_test pred tc pc m)
     = (case show_failures X_test y_test pred tc pc m of Inl e \<Rightarrow> Some e | Inr r \<Rightarrow> None)"
  "show_failures X_test y_test pred tc pc m = Inr r \<Longrightarrow>
   titles (fst (show_failures_calls [] X_test y_test pred tc pc m)) = map snd r"
proof -
  show "snd (show_failures_calls calls X_test y_test pred tc pc m)
     = (case show_failures X_test y_test pred tc pc m of Inl e \<Rightarrow> Some e | Inr r \<Rightarrow> None)"
  proof (cases "m < 0")
    case True
    then show ?thesis
      by (simp add: show_failures_calls_def show_failures_def plt_figure_def)
  next
    case False
    have "snd (scan_calls (ne_arrays pred y_test) X_test y_test pred tc pc m
                 [0..<length X_test] 0 (calls @ [Print m, Figure m]))
          = (case scan (ne_arrays pred y_test) y_test pred tc pc m [0..<length X_test] 0 [] of
               Inl e \<Rightarrow> Some e | Inr r \<Rightarrow> None)"
      by (rule scan_calls_outcome) simp
    with False show ?thesis
      by (simp add: show_failures_calls_def show_failures_def plt_figure_def)
  qed
next
  assume run: "show_failures X_test y_test pred tc pc m = Inr r"
  then have m: "\<not> m < 0"
    by (auto simp: show_failures_def plt_figure_def split: if_splits)
  with run
  have "scan (ne_arrays pred y_test) y_test pred tc pc m [0..<length X_test] 0 [] = Inr r"
    by (simp add: show_failures_def plt_figure_def)
  then have "titles (fst (scan_calls (ne_arrays pred y_test) X_test y_test pred tc pc m
                 [0..<length X_test] 0 [Print m, Figure m])) = map snd r"
    by (rule scan_calls_titles [rotated 2]) simp_all
  with m show "titles (fst (show_failures_calls [] X_test y_test pred tc pc m)) = map snd r"
    by (simp add: show_failures_calls_def plt_figure_def)
qed

section \<open>Properties of the gallery\<close>

text \<open>
  In the theorems below \<open>y_test\<close> is the ground truth \<open>G\<close> of the specification, \<open>pred\<close> its
  predictions \<open>P\<close>, \<open>trueclass\<close> and \<open>predictedclass\<close> its \<open>expectedLabel\<close> and
  \<open>predictedLabel\<close>, \<open>maxtoshow\<close> its \<open>maxResults\<close>, and the gallery of tiles its result
  sequence. An evaluation set is aligned when \<open>X_test\<close> has as many rows as \<open>y_test\<close> has
  labels, which is how every notebook builds the two.
\<close>

text \<open>
  C1. For ground truth and predictions of equal length (over an aligned evaluation set)
  and every positive cap, the call ends normally, and every tile \<open>(i, p, g)\<close> of its
  gallery is a failure read at its index: \<open>p \<noteq> g\<close>, \<open>pred[i] = p\<close> and \<open>y_test[i] = g\<close>.
\<close>

theorem show_failures_tiles_are_failures:
  assumes "length pred = length y_test" and "length X_test = length y_test"
    and "0 < maxtoshow"
  shows "\<exists>r. show_failures X_test y_test pred trueclass predictedclass maxtoshow = Inr r \<and>
           (\<forall>(i, p, g) \<in> set r. p \<noteq> g \<and> i < length pred \<and> pred ! i = p \<and> y_test ! i = g)"
proof -
  let ?r = "findFailures_spec y_test pred trueclass predictedclass maxtoshow"
  from assms
  have run: "show_failures X_test y_test pred trueclass predictedclass maxtoshow = Inr ?r"
    by (simp add: show_failures_aligned)
  have "p \<noteq> g \<and> i < length pred \<and> pred ! i = p \<and> y_test ! i = g" if "(i, p, g) \<in> set ?r" for i p g
  proof -
    from that have "(i, p, g) \<in> set (all_matching y_test pred trueclass predictedclass)"
      by (auto simp: findFailures_spec_def dest: in_set_takeD)
    from all_matching_member [OF assms(1) this] assms(1) show ?thesis
      by (auto simp: satisfies_query_def)
  qed
  with run show ?thesis by blast
qed

theorem show_failures_tiles_are_failures_witness:
  "length [0, 2, 1, 2, 1 :: int] = length [0, 1, 1, 2, 0 :: int] \<and>
   length [[0], [1], [2], [3], [4 :: nat]] = length [0, 1, 1, 2, 0 :: int] \<and>
   (0 :: int) < 10 \<and>
   (\<exists>r. show_failures [[0], [1], [2], [3], [4 :: nat]] [0, 1, 1, 2, 0 :: int] [0, 2, 1, 2, 1]
           None None 10 = Inr r \<and>
        (\<forall>(i, p, g) \<in> set r. p \<noteq> g \<and> i < length [0, 2, 1, 2, 1 :: int] \<and>
           [0, 2, 1, 2, 1] ! i = p \<and> [0, 1, 1, 2, 0] ! i = g)) \<and>
   show_failures [[0], [1], [2], [3], [4 :: nat]] [0, 1, 1, 2, 0 :: int] [0, 2, 1, 2, 1]
     None None 10 = Inr [(1, 2, 1), (4, 1, 0)]"
proof -
  have h1: "length [0, 2, 1, 2, 1 :: int] = length [0, 1, 1, 2, 0 :: int]" by simp
  have h2: "length [[0], [1], [2], [3], [4 :: nat]] = length [0, 1, 1, 2, 0 :: int]" by simp
  have h3: "(0 :: int) < 10" by simp
  have h4: "show_failures [[0], [1], [2], [3], [4 :: nat]] [0, 1, 1, 2, 0 :: int]
              [0, 2, 1, 2, 1] None None 10 = Inr [(1, 2, 1), (4, 1, 0)]"
    by (simp add: show_failures_def ne_arrays_def plt_figure_def errors_item_def getitem_def
        filtered_out_def upt_rec)
  from show_failures_tiles_are_failures [OF h1 h2 h3, of None None] h1 h2 h3 h4
  show ?thesis by blast
qed

text \<open>
  C2. For every input on which the call ends normally: if \<open>trueclass\<close> is set, every tile of
  the gallery has that ground truth, and if \<open>predictedclass\<close> is set, every tile has that
  prediction.
\<close>

theorem show_failures_filters_hold:
  assumes "show_failures X_test y_test pred trueclass predictedclass maxtoshow = Inr r"
    and "(i, p, g) \<in> set r"
  shows "(\<forall>e. trueclass = Some e \<longrightarrow> g = e) \<and> (\<forall>q. predictedclass = Some q \<longrightarrow> p = q)"
proof -
  from assms obtain j where t: "(i, p, g) = (j, pred ! j, y_test ! j)"
    and d: "drawn_at (ne_arrays pred y_test) y_test pred trueclass predictedclass j"
    by (rule show_failures_member)
  from d have "filtered_out trueclass y_test j = Inr False"
    and "filtered_out predictedclass pred j = Inr False"
    by (simp_all add: drawn_at_def)
  with t show ?thesis
    by (auto dest: filtered_out_SomeD)
qed

theorem show_failures_filters_hold_witness:
  "show_failures [[0], [1], [2], [3], [4 :: nat]] [0, 1, 1, 2, 0 :: int] [0, 2, 1, 2, 1]
     (Some 1) (Some 2) 10 = Inr [(1, 2, 1)] \<and>
   (1, 2, 1) \<in> set [(1 :: nat, 2 :: int, 1 :: int)] \<and>
   (\<exists>e. Some (1 :: int) = Some e \<and> 1 = e) \<and> (\<exists>q. Some (2 :: int) = Some q \<and> 2 = q)"
proof -
  have h1: "show_failures [[0], [1], [2], [3], [4 :: nat]] [0, 1, 1, 2, 0 :: int] [0, 2, 1, 2, 1]
     (Some 1) (Some 2) 10 = Inr [(1, 2, 1)]"
    by (simp add: show_failures_def ne_arrays_def plt_figure_def errors_item_def getitem_def
        filtered_out_def upt_rec)
  have h2: "(1, 2, 1) \<in> set [(1 :: nat, 2 :: int, 1 :: int)]" by simp
  from show_failures_filters_hold [OF h1 h2] h1 h2 show ?thesis by blast
qed

text \<open>
  C3. For every input with a cap that is not negative on which the call ends normally,
  the gallery has at most \<open>maxtoshow\<close> tiles and their indices are strictly increasing:
  tiles appear in the order of the rows, the first found first.
\<close>

theorem show_failures_bounded_increasing:
  assumes "show_failures X_test y_test pred trueclass predictedclass maxtoshow = Inr r"
    and "0 \<le> maxtoshow"
  shows "int (length r) \<le> maxtoshow \<and> sorted_wrt (<) (map fst r)"
proof -
  define errors where "errors = ne_arrays pred y_test"
  from show_failures_result [OF assms(1)]
  have r: "r = take (nat maxtoshow) (map (\<lambda>i. (i, pred ! i, y_test ! i))
               (filter (drawn_at errors y_test pred trueclass predictedclass)
                  [0..<length X_test]))"
    by (simp add: errors_def)
  from r have "length r \<le> nat maxtoshow" by simp
  with assms(2) have len: "int (length r) \<le> maxtoshow" by linarith
  from r have "map fst r = take (nat maxtoshow)
      (filter (drawn_at errors y_test pred trueclass predictedclass) [0..<length X_test])"
    by (simp add: take_map comp_def)
  moreover have "sorted_wrt (<)
      (filter (drawn_at errors y_test pred trueclass predictedclass) [0..<length X_test])"
    by (rule sorted_wrt_filter) simp
  ultimately have "sorted_wrt (<) (map fst r)"
    by simp
  with len show ?thesis by simp
qed

theorem show_failures_bounded_increasing_witness:
  "show_failures [[0], [1], [2 :: nat]] [1, 1, 1 :: int] [0, 0, 0] None None 2
     = Inr [(0, 0, 1), (1, 0, 1)] \<and>
   (0 :: int) \<le> 2 \<and>
   int (length [(0 :: nat, 0 :: int, 1 :: int), (1, 0, 1)]) \<le> 2 \<and>
   sorted_wrt (<) (map fst [(0 :: nat, 0 :: int, 1 :: int), (1, 0, 1)])"
proof -
  have h1: "show_failures [[0], [1], [2 :: nat]] [1, 1, 1 :: int] [0, 0, 0] None None 2
     = Inr [(0, 0, 1), (1, 0, 1)]"
    by (simp add: show_failures_def ne_arrays_def plt_figure_def errors_item_def getitem_def
        filtered_out_def upt_rec)
  have h2: "(0 :: int) \<le> 2" by simp
  from show_failures_bounded_increasing [OF h1 h2] h1 h2 show ?thesis by blast
qed


text \<open>
  C4. For ground truth and predictions of equal length (over an aligned evaluation set)
  and every positive cap, the scan with its early exit draws exactly the gallery of the
  reference computation: filter all positions for failures that satisfy both optional
  filters, then keep the first \<open>maxtoshow\<close>. When fewer positions than the cap match, the
  cap is never reached and the gallery is every match of the full input.
\<close>

theorem show_failures_refines_findFailures:
  assumes "length pred = length y_test" and "length X_test = length y_test"
    and "0 < maxtoshow"
  shows "show_failures X_test y_test pred trueclass predictedclass maxtoshow
           = Inr (findFailures_spec y_test pred trueclass predictedclass maxtoshow) \<and>
         (int (length (all_matching y_test pred trueclass predictedclass)) < maxtoshow \<longrightarrow>
          show_failures X_test y_test pred trueclass predictedclass maxtoshow
            = Inr (all_matching y_test pred trueclass predictedclass))"
proof -
  from assms
  have run: "show_failures X_test y_test pred trueclass predictedclass maxtoshow
           = Inr (findFailures_spec y_test pred trueclass predictedclass maxtoshow)"
    by (simp add: show_failures_aligned)
  have "findFailures_spec y_test pred trueclass predictedclass maxtoshow
          = all_matching y_test pred trueclass predictedclass"
    if "int (length (all_matching y_test pred trueclass predictedclass)) < maxtoshow"
  proof -
    from that have "length (all_matching y_test pred trueclass predictedclass) \<le> nat maxtoshow"
      by linarith
    then show ?thesis by (simp add: findFailures_spec_def)
  qed
  with run show ?thesis by simp
qed

theorem show_failures_refines_findFailures_witness:
  "length [0, 2, 1, 2, 1 :: int] = length [0, 1, 1, 2, 0 :: int] \<and>
   length [[0], [1], [2], [3], [4 :: nat]] = length [0, 1, 1, 2, 0 :: int] \<and>
   (0 :: int) < 10 \<and>
   int (length (all_matching [0, 1, 1, 2, 0 :: int] [0, 2, 1, 2, 1] None None)) < 10 \<and>
   show_failures [[0], [1], [2], [3], [4 :: nat]] [0, 1, 1, 2, 0 :: int] [0, 2, 1, 2, 1]
     None None 10 = Inr (findFailures_spec [0, 1, 1, 2, 0] [0, 2, 1, 2, 1] None None 10) \<and>
   show_failures [[0], [1], [2], [3], [4 :: nat]] [0, 1, 1, 2, 0 :: int] [0, 2, 1, 2, 1]
     None None 10 = Inr (all_matching [0, 1, 1, 2, 0] [0, 2, 1, 2, 1] None None) \<and>
   all_matching [0, 1, 1, 2, 0 :: int] [0, 2, 1, 2, 1] None None = [(1, 2, 1), (4, 1, 0)]"
proof -
  have h1: "length [0, 2, 1, 2, 1 :: int] = length [0, 1, 1, 2, 0 :: int]" by simp
  have h2: "length [[0], [1], [2], [3], [4 :: nat]] = length [0, 1, 1, 2, 0 :: int]" by simp
  have h3: "(0 :: int) < 10" by simp
  have h4: "all_matching [0, 1, 1, 2, 0 :: int] [0, 2, 1, 2, 1] None None
              = [(1, 2, 1), (4, 1, 0)]"
    by (simp add: all_matching_def satisfies_query_def upt_rec)
  have h5: "int (length (all_matching [0, 1, 1, 2, 0 :: int] [0, 2, 1, 2, 1] None None)) < 10"
    by (simp add: h4)
  from show_failures_refines_findFailures [OF h1 h2 h3, of None None] h1 h2 h3 h4 h5
  show ?thesis by blast
qed

text \<open>
  C7. For ground truth and predictions of equal length (over an aligned evaluation set)
  and every positive cap: when every position either is no failure or is excluded by a
  filter that is set, the call ends normally with the empty gallery. In particular it
  does so when the predictions are the ground truth itself.
\<close>

theorem show_failures_nothing_to_show:
  assumes "length pred = length y_test" and "length X_test = length y_test"
    and "0 < maxtoshow"
    and "\<forall>i < length y_test. pred ! i = y_test ! i \<or>
           (\<exists>e. trueclass = Some e \<and> y_test ! i \<noteq> e) \<or>
           (\<exists>q. predictedclass = Some q \<and> pred ! i \<noteq> q)"
  shows "show_failures X_test y_test pred trueclass predictedclass maxtoshow = Inr [] \<and>
         show_failures X_test y_test y_test trueclass predictedclass maxtoshow = Inr []"
proof -
  have none: "all_matching G P trueclass predictedclass = []"
    if len: "length P = length G"
      and ex: "\<forall>i < length G. P ! i = G ! i \<or>
           (\<exists>e. trueclass = Some e \<and> G ! i \<noteq> e) \<or>
           (\<exists>q. predictedclass = Some q \<and> P ! i \<noteq> q)"
    for G P :: "'a list"
  proof -
    have "\<not> satisfies_query trueclass predictedclass (i, P ! i, G ! i)" if "i < length G" for i
      using ex that by (auto simp: satisfies_query_def)
    then show ?thesis
      by (simp add: all_matching_def positions_eq [OF len] filter_empty_conv)
  qed
  from assms have "show_failures X_test y_test pred trueclass predictedclass maxtoshow = Inr []"
    by (simp add: show_failures_aligned findFailures_spec_def none)
  moreover
  from assms(2,3)
  have "show_failures X_test y_test y_test trueclass predictedclass maxtoshow = Inr []"
    by (simp add: show_failures_aligned findFailures_spec_def none)
  ultimately show ?thesis by simp
qed

theorem show_failures_nothing_to_show_witness:
  "length [0, 2, 1, 2, 1 :: int] = length [0, 1, 1, 2, 0 :: int] \<and>
   length [[0], [1], [2], [3], [4 :: nat]] = length [0, 1, 1, 2, 0 :: int] \<and>
   (0 :: int) < 10 \<and>
   show_failures [[0], [1], [2], [3], [4 :: nat]] [0, 1, 1, 2, 0 :: int] [0, 2, 1, 2, 1]
     None (Some 9) 10 = Inr [] \<and>
   show_failures [[0], [1], [2], [3], [4 :: nat]] [0, 1, 1, 2, 0 :: int] [0, 1, 1, 2, 0]
     None (Some 9) 10 = Inr []"
proof -
  have h1: "length [0, 2, 1, 2, 1 :: int] = length [0, 1, 1, 2, 0 :: int]" by simp
  have h2: "length [[0], [1], [2], [3], [4 :: nat]] = length [0, 1, 1, 2, 0 :: int]" by simp
  have h3: "(0 :: int) < 10" by simp
  have h4: "\<forall>i < length [0, 1, 1, 2, 0 :: int].
      [0, 2, 1, 2, 1 :: int] ! i = [0, 1, 1, 2, 0] ! i \<or>
      (\<exists>e. (None :: int option) = Some e \<and> [0, 1, 1, 2, 0] ! i \<noteq> e) \<or>
      (\<exists>q. Some (9 :: int) = Some q \<and> [0, 2, 1, 2, 1] ! i \<noteq> q)"
    by (simp add: nth_Cons split: nat.splits)
  from show_failures_nothing_to_show [OF h1 h2 h3 h4] h1 h2 h3 show ?thesis by blast
qed




text \<open>
  C10. For ground truth and predictions of equal length (over an aligned evaluation set),
  both filters unset and a positive cap, the number of tiles is the smaller of the cap and
  the number of positions where the prediction differs from the ground truth: only the
  cap leaves a failure out.
\<close>

theorem show_failures_length_exact:
  assumes "length pred = length y_test" and "length X_test = length y_test"
    and "0 < maxtoshow"
  shows "\<exists>r. show_failures X_test y_test pred None None maxtoshow = Inr r \<and>
           int (length r)
             = min maxtoshow (int (length (filter (\<lambda>(p, g). p \<noteq> g) (zip pred y_test))))"
proof -
  let ?r = "findFailures_spec y_test pred None None maxtoshow"
  from assms have run: "show_failures X_test y_test pred None None maxtoshow = Inr ?r"
    by (simp add: show_failures_aligned)
  have "length ?r
          = min (nat maxtoshow) (length (filter (\<lambda>(p, g). p \<noteq> g) (zip pred y_test)))"
    by (simp add: findFailures_spec_def length_all_matching_unfiltered [OF assms(1)]
        min.commute)
  with assms(3)
  have "int (length ?r)
          = min maxtoshow (int (length (filter (\<lambda>(p, g). p \<noteq> g) (zip pred y_test))))"
    by linarith
  with run show ?thesis by blast
qed

theorem show_failures_length_exact_witness:
  "length [0, 0, 0 :: int] = length [1, 1, 1 :: int] \<and>
   length [[0], [1], [2 :: nat]] = length [1, 1, 1 :: int] \<and>
   (0 :: int) < 2 \<and>
   (\<exists>r. show_failures [[0], [1], [2 :: nat]] [1, 1, 1 :: int] [0, 0, 0] None None 2 = Inr r \<and>
        int (length r)
          = min 2 (int (length (filter (\<lambda>(p, g). p \<noteq> g)
                                  (zip [0, 0, 0 :: int] [1, 1, 1 :: int])))))"
proof -
  have h1: "length [0, 0, 0 :: int] = length [1, 1, 1 :: int]" by simp
  have h2: "length [[0], [1], [2 :: nat]] = length [1, 1, 1 :: int]" by simp
  have h3: "(0 :: int) < 2" by simp
  from show_failures_length_exact [OF h1 h2 h3] h1 h2 h3 show ?thesis by blast
qed


section \<open>Arguments outside the contract\<close>

text \<open>
  The specification gives \<open>findFailures\<close> two validation errors, \<open>InvalidInputError\<close> for
  sequences of unequal length and \<open>InvalidArgumentError\<close> for a cap that is not positive.
  The helper of the notebooks checks neither: what happens on such arguments is decided
  by what the comparison \<open>pred != y_test\<close> answers, by \<open>plt.figure\<close> and by the tests of
  the loop.
\<close>

text \<open>
  One label, one feature row and three predictions: the comparison broadcasts the single
  label, the loop visits the single row, and the call ends normally with one tile. The
  second and third prediction are never read.
\<close>

theorem show_failures_unequal_lengths_counterexample:
  "length [0, 0, 0 :: int] \<noteq> length [1 :: int] \<and>
   show_failures [[0 :: nat]] [1 :: int] [0, 0, 0] None None 10 = Inr [(0, 0, 1)]"
  by (simp add: show_failures_def ne_arrays_def plt_figure_def errors_item_def getitem_def
      filtered_out_def)

text \<open>
  C5, as the code has it. For ground truth and predictions of unequal length, neither of
  length one, the comparison \<open>pred != y_test\<close> answers with the single boolean \<open>True\<close>,
  and the call ends in one of three ways: with the \<open>ValueError\<close> of \<open>plt.figure\<close> when the
  cap is negative; normally, with the empty gallery, when the cap is zero or \<open>X_test\<close> has
  no row; and in every other case with the \<open>TypeError\<close> of \<open>errors[i]\<close>.
\<close>

theorem show_failures_unequal_lengths:
  assumes "length pred \<noteq> length y_test" and "length pred \<noteq> 1" and "length y_test \<noteq> 1"
  shows "ne_arrays pred y_test = Scalar True \<and>
         show_failures X_test y_test pred trueclass predictedclass maxtoshow
         = (if maxtoshow < 0 then Inl FigsizeError
            else if maxtoshow = 0 \<or> X_test = [] then Inr []
            else Inl TypeError)"
proof -
  from assms have errors: "ne_arrays pred y_test = Scalar True"
    by (simp add: ne_arrays_def)
  have "show_failures X_test y_test pred trueclass predictedclass maxtoshow
         = (if maxtoshow < 0 then Inl FigsizeError
            else if maxtoshow = 0 \<or> X_test = [] then Inr []
            else Inl TypeError)"
  proof (cases "0 < maxtoshow \<and> X_test \<noteq> []")
    case True
    then have "[0..<length X_test] = 0 # [1..<length X_test]"
      by (simp add: upt_conv_Cons)
    with True errors show ?thesis
      by (simp add: show_failures_def plt_figure_def errors_item_def)
  next
    case False
    with errors show ?thesis
      by (auto simp: show_failures_def plt_figure_def scan_break)
  qed
  with errors show ?thesis by simp
qed

theorem show_failures_unequal_lengths_witness:
  "length [0, 1, 2, 3 :: int] \<noteq> length [0, 1, 2 :: int] \<and>
   length [0, 1, 2, 3 :: int] \<noteq> 1 \<and> length [0, 1, 2 :: int] \<noteq> 1 \<and>
   ne_arrays [0, 1, 2, 3 :: int] [0, 1, 2 :: int] = Scalar True \<and>
   show_failures [[0], [1], [2 :: nat]] [0, 1, 2 :: int] [0, 1, 2, 3] None None 10
     = Inl TypeError \<and>
   show_failures [[0], [1], [2 :: nat]] [0, 1, 2 :: int] [0, 1, 2, 3] None None 0 = Inr [] \<and>
   show_failures ([] :: nat list list) [0, 1, 2 :: int] [0, 1, 2, 3] None None 10 = Inr [] \<and>
   show_failures [[0], [1], [2 :: nat]] [0, 1, 2 :: int] [0, 1, 2, 3] None None (- 1)
     = Inl FigsizeError"
proof -
  have h1: "length [0, 1, 2, 3 :: int] \<noteq> length [0, 1, 2 :: int]" by simp
  have h2: "length [0, 1, 2, 3 :: int] \<noteq> 1" by simp
  have h3: "length [0, 1, 2 :: int] \<noteq> 1" by simp
  from show_failures_unequal_lengths [OF h1 h2 h3, of "[[0], [1], [2 :: nat]]" None None 10]
    show_failures_unequal_lengths [OF h1 h2 h3, of "[[0], [1], [2 :: nat]]" None None 0]
    show_failures_unequal_lengths [OF h1 h2 h3, of "[] :: nat list list" None None 10]
    show_failures_unequal_lengths [OF h1 h2 h3, of "[[0], [1], [2 :: nat]]" None None "- 1"]
    h1 h2 h3
  show ?thesis by simp
qed

text \<open>
  With a cap of zero the loop leaves at its first \<open>break\<close> test: the call ends normally
  and the gallery is empty.
\<close>

theorem show_failures_zero_cap_counterexample:
  "show_failures [[0 :: nat]] [1 :: int] [0] None None 0 = Inr []"
  by (simp add: show_failures_def ne_arrays_def plt_figure_def)

text \<open>
  C6, as the code has it. For ground truth and predictions of equal length: a cap of zero
  gives the empty gallery and no exception; a negative cap makes the call fail before
  any row is scanned, with the \<open>ValueError\<close> that \<open>plt.figure\<close> raises for a negative
  width.
\<close>

theorem show_failures_nonpositive_cap:
  assumes "length pred = length y_test" and "maxtoshow \<le> 0"
  shows "(maxtoshow = 0 \<longrightarrow>
            show_failures X_test y_test pred trueclass predictedclass maxtoshow = Inr []) \<and>
         (maxtoshow < 0 \<longrightarrow>
            show_failures X_test y_test pred trueclass predictedclass maxtoshow
              = Inl FigsizeError)"
  using assms by (simp add: show_failures_def ne_arrays_def plt_figure_def scan_break)

theorem show_failures_nonpositive_cap_witness:
  "length [0, 0, 0 :: int] = length [1, 1, 1 :: int] \<and> (0 :: int) \<le> 0 \<and> (- 1 :: int) \<le> 0 \<and>
   show_failures [[0], [1], [2 :: nat]] [1, 1, 1 :: int] [0, 0, 0] None None 0 = Inr [] \<and>
   show_failures [[0], [1], [2 :: nat]] [1, 1, 1 :: int] [0, 0, 0] None None (- 1)
     = Inl FigsizeError"
proof -
  have h1: "length [0, 0, 0 :: int] = length [1, 1, 1 :: int]" by simp
  have h2: "(0 :: int) \<le> 0" by simp
  have h3: "(- 1 :: int) \<le> 0" by simp
  from show_failures_nonpositive_cap [OF h1 h2, of "[[0], [1], [2 :: nat]]" None None]
    show_failures_nonpositive_cap [OF h1 h3, of "[[0], [1], [2 :: nat]]" None None]
    h1 h2 h3
  show ?thesis by simp
qed

section \<open>Examples\<close>

text \<open>
  C9. With ground truth \<open>[1, 1, 1]\<close>, predictions \<open>[0, 0, 0]\<close>, no filter and a cap of two,
  the gallery is exactly \<open>[(0, 0, 1), (1, 0, 1)]\<close>: the third failure, at index 2, is cut
  off by the cap. The three feature rows are arbitrary.
\<close>

theorem show_failures_cap_example:
  "show_failures [x0, x1, x2] [1, 1, 1] [0, 0, 0] None None 2
     = Inr [(0, 0, 1), (1, 0, 1 :: int)]"
  by (simp add: show_failures_def ne_arrays_def plt_figure_def errors_item_def getitem_def
      filtered_out_def upt_rec)


end
